theory Spec2Isabelle
  imports Complex_Main
begin

section \<open>The integrator of lessons/integrate/dlintegrate.c\<close>

text \<open>
  The program parses its command line (\<open>parse_args\<close>), loads a function from a shared
  object, splits the interval into one part per thread, runs \<open>integrate_worker\<close> in each
  thread, joins the threads and prints the sum of their results.

  Conventions of the model.
  \<^item> Values of \<open>farg_t\<close> (\<open>double\<close>) and of \<open>long double\<close> are rationals and the
    arithmetic on them is exact: rounding is not modelled. The worker, the join and the
    final sum are written for any type with \<open>0\<close>, \<open>+\<close>, \<open>*\<close> and \<open><\<close>, so what is
    proved about them without further assumptions holds for every arithmetic, rounded
    or not.
  \<^item> The C library and the operating system are parameters, collected in the record
    \<open>env\<close>: what \<open>getopt\<close> returns, what \<open>sscanf\<close> reads from a string, which module
    and symbol the dynamic loader finds, which calls of \<open>pthread_create\<close> succeed, and
    the order in which the threads run to completion.
  \<^item> The loaded function is a function of its argument alone.
  \<^item> The time measurement of the verbose mode and the debug log are left out.
\<close>

subsection \<open>Errors, messages and exit codes\<close>

datatype error =
    PE_OK | PE_NOARGS | PE_WRONGARG | PE_NENARGS | PE_TMARGS
  | PE_CVGERR | PE_MALLOC | PE_THREAD | PE_DLERR | PE_LAST

text \<open>The exit codes of \<open>stdlib.h\<close> and \<open>sysexits.h\<close>, with the values these headers give.\<close>

definition EXIT_SUCCESS :: int where "EXIT_SUCCESS = 0"
definition EXIT_FAILURE :: int where "EXIT_FAILURE = 1"
definition EX_USAGE :: int where "EX_USAGE = 64"
definition EX_DATAERR :: int where "EX_DATAERR = 65"
definition EX_SOFTWARE :: int where "EX_SOFTWARE = 70"
definition EX_OSERR :: int where "EX_OSERR = 71"

text \<open>The table \<open>error_msg\<close>; its last entry is \<open>NULL\<close>.\<close>

fun error_msg :: "error \<Rightarrow> string option" where
  "error_msg PE_OK = Some []"
| "error_msg PE_NOARGS = Some ''No arguments provided''"
| "error_msg PE_WRONGARG = Some (''Wrong argument '' @ [CHR 0x27] @ ''%s'' @ [CHR 0x27])"
| "error_msg PE_NENARGS = Some ''Not enough arguments''"
| "error_msg PE_TMARGS = Some ''Too many arguments''"
| "error_msg PE_CVGERR = Some ''Convergence unreachable''"
| "error_msg PE_MALLOC = Some ''Could not allocate memory''"
| "error_msg PE_THREAD = Some ''Threading error''"
| "error_msg PE_DLERR = Some ''Dynamic loader (%s)''"
| "error_msg PE_LAST = None"

fun error_retcodes :: "error \<Rightarrow> int" where
  "error_retcodes PE_OK = EXIT_SUCCESS"
| "error_retcodes PE_NOARGS = EX_USAGE"
| "error_retcodes PE_WRONGARG = EX_USAGE"
| "error_retcodes PE_NENARGS = EX_USAGE"
| "error_retcodes PE_TMARGS = EX_USAGE"
| "error_retcodes PE_CVGERR = EX_DATAERR"
| "error_retcodes PE_MALLOC = EX_OSERR"
| "error_retcodes PE_THREAD = EX_OSERR"
| "error_retcodes PE_DLERR = EX_SOFTWARE"
| "error_retcodes PE_LAST = EXIT_FAILURE"

text \<open>
  What the program writes to standard error: the usage text for a program name, the help
  text, the line of \<open>parse_args\<close> about an interval it cannot integrate, and the line
  \<open>Error: ... .\<close> of \<open>report\<close>.
\<close>

datatype stderr_item =
    Usage_text string
  | Help_text
  | Cannot_integrate rat rat
  | Error_line string

text \<open>\<open>asprintf\<close> with a format that holds one \<open>%s\<close>: the argument takes its place.\<close>

fun asprintf :: "string \<Rightarrow> string \<Rightarrow> string" where
  "asprintf [] arg = []"
| "asprintf [c] arg = [c]"
| "asprintf (c # d # fmt) arg =
     (if c = CHR ''%'' \<and> d = CHR ''s'' then arg @ fmt else c # asprintf (d # fmt) arg)"

text \<open>
  The nested function \<open>report\<close> of \<open>err_handler\<close>: the line it prints and the code it
  exits with. glibc prints \<open>(null)\<close> for a null string.
\<close>

definition report :: "error \<Rightarrow> string option \<Rightarrow> stderr_item list \<times> int" where
  "report err msg =
     ([Error_line (''Error: '' @
         (case msg of
            Some m \<Rightarrow> m
          | None \<Rightarrow> (case error_msg err of Some m \<Rightarrow> m | None \<Rightarrow> ''(null)'')) @ ''.'')],
      error_retcodes err)"

text \<open>
  \<open>err_handler err etc\<close>: \<open>None\<close> when it returns to its caller (only for \<open>PE_OK\<close>),
  otherwise what it writes and the code it exits with. \<open>dlerr\<close> is the text \<open>dlerror()\<close>
  returns.
\<close>

fun err_handler :: "string \<Rightarrow> error \<Rightarrow> string \<Rightarrow> (stderr_item list \<times> int) option" where
  "err_handler dlerr PE_OK etc = None"
| "err_handler dlerr PE_WRONGARG etc =
     Some (report PE_WRONGARG
       (Some (asprintf (case error_msg PE_WRONGARG of Some m \<Rightarrow> m | None \<Rightarrow> []) etc)))"
| "err_handler dlerr PE_DLERR etc =
     Some (report PE_DLERR
       (Some (asprintf (case error_msg PE_DLERR of Some m \<Rightarrow> m | None \<Rightarrow> []) dlerr)))"
| "err_handler dlerr PE_NOARGS etc =
     Some (Usage_text etc # fst (report PE_NOARGS None), snd (report PE_NOARGS None))"
| "err_handler dlerr err etc = Some (report err None)"

subsection \<open>Arguments\<close>

record defaults =
  nsteps :: int
  nthreads :: int

record args = defaults +
  args_start :: rat
  args_end :: rat
  funcname :: "string option"
  isverbose :: bool
  ishelp :: bool

text \<open>The range of \<open>long long\<close>.\<close>

definition LLONG_MIN :: int where "LLONG_MIN = - (2 ^ 63)"
definition LLONG_MAX :: int where "LLONG_MAX = 2 ^ 63 - 1"

text \<open>
  The conversion of a floating value to \<open>long long\<close>: the fractional part is discarded,
  and the behaviour is undefined (\<open>None\<close>) when the integral part is out of range.
\<close>

definition ll_of_real :: "rat \<Rightarrow> int option" where
  "ll_of_real x =
     (let t = (if x < 0 then \<lceil>x\<rceil> else \<lfloor>x\<rfloor>)
      in if LLONG_MIN \<le> t \<and> t \<le> LLONG_MAX then Some t else None)"

text \<open>\<open>DEFAULTS\<close>: the initialiser \<open>10e6\<close> is a \<open>double\<close> constant, converted to \<open>long long\<close>.\<close>

definition DEFAULTS :: defaults where
  "DEFAULTS =
     \<lparr>nsteps = (case ll_of_real (10 * 10 ^ 6) of Some n \<Rightarrow> n | None \<Rightarrow> 0), nthreads = 1\<rparr>"

text \<open>
  \<open>float.h\<close>: the difference between 1 and the next value of \<open>float\<close> and of \<open>double\<close>
  (IEEE 754 binary32 and binary64). The program's \<open>EPSILON\<close> is \<open>FLT_EPSILON\<close>.
\<close>

definition FLT_EPSILON :: rat where "FLT_EPSILON = 1 / 2 ^ 23"
definition EPSILON :: rat where "EPSILON = FLT_EPSILON"

text \<open>
  What \<open>sscanf(str, "%Lg%c", dstptr, &etc)\<close> does with a string: it converts nothing
  (it returns 0 or \<open>EOF\<close>), it converts a number and the string ends there (it returns
  1), or it converts a number and a character after it (it returns 2). The number read
  is finite or not (an infinity or a NaN).
\<close>

datatype ldval = Finite rat | Nonfinite
datatype scan_result = Scan_none | Scan_one ldval | Scan_two ldval char

definition ld_conv :: "(string \<Rightarrow> scan_result) \<Rightarrow> string \<Rightarrow> rat option" where
  "ld_conv sscanf str =
     (case sscanf str of
        Scan_one v \<Rightarrow> (case v of Finite x \<Rightarrow> Some x | Nonfinite \<Rightarrow> None)
      | Scan_none \<Rightarrow> None
      | Scan_two v c \<Rightarrow> None)"

text \<open>
  What \<open>getopt(argc, argv, "hvt:n:F:")\<close> returns, call after call: an option of the
  option string, with its argument where it takes one, or \<open>?\<close>, for which the program
  reports \<open>argv[optind - 1]\<close>.
\<close>

datatype getopt_item =
    Opt_h | Opt_v | Opt_t string | Opt_n string | Opt_F string | Opt_unknown string

text \<open>
  How a function that may leave the program ends: it returns a value, it calls
  \<open>err_handler\<close> with an error other than \<open>PE_OK\<close> (after writing some lines), it exits
  after printing the help, or its behaviour is undefined.
\<close>

datatype 'a res =
    Ret 'a
  | Fail "stderr_item list" error string
  | Help_exit
  | Undefined

text \<open>One round of the \<open>switch\<close> in the option loop of \<open>parse_args\<close>.\<close>

fun parse_opt :: "(string \<Rightarrow> scan_result) \<Rightarrow> getopt_item \<Rightarrow> args \<Rightarrow> args res" where
  "parse_opt sscanf Opt_h a = Help_exit"
| "parse_opt sscanf Opt_v a = Ret (a\<lparr>isverbose := True\<rparr>)"
| "parse_opt sscanf (Opt_t optarg) a =
     (case ld_conv sscanf optarg of
        None \<Rightarrow> Fail [] PE_WRONGARG optarg
      | Some threads \<Rightarrow>
          (case ll_of_real threads of
             None \<Rightarrow> Undefined
           | Some t \<Rightarrow> if t < 0 then Fail [] PE_WRONGARG optarg else Ret (a\<lparr>nthreads := t\<rparr>)))"
| "parse_opt sscanf (Opt_n optarg) a =
     (case ld_conv sscanf optarg of
        None \<Rightarrow> Fail [] PE_WRONGARG optarg
      | Some steps \<Rightarrow>
          (case ll_of_real steps of
             None \<Rightarrow> Undefined
           | Some n \<Rightarrow> if n \<le> 0 then Fail [] PE_WRONGARG optarg else Ret (a\<lparr>nsteps := n\<rparr>)))"
| "parse_opt sscanf (Opt_F optarg) a = Ret (a\<lparr>funcname := Some optarg\<rparr>)"
| "parse_opt sscanf (Opt_unknown arg) a = Fail [] PE_WRONGARG arg"

text \<open>The option loop: it ends when \<open>getopt\<close> has no more options, or in the first exit.\<close>

fun parse_opts :: "(string \<Rightarrow> scan_result) \<Rightarrow> getopt_item list \<Rightarrow> args \<Rightarrow> args res" where
  "parse_opts sscanf [] a = Ret a"
| "parse_opts sscanf (opt # syms) a =
     (case parse_opt sscanf opt a of
        Ret a' \<Rightarrow> parse_opts sscanf syms a'
      | Fail out err etc \<Rightarrow> Fail out err etc
      | Help_exit \<Rightarrow> Help_exit
      | Undefined \<Rightarrow> Undefined)"

text \<open>
  The initial value \<open>{ DEFAULTS, .funcname = NULL }\<close>: the members not named are zero.
\<close>

definition init_args :: args where
  "init_args =
     \<lparr>nsteps = nsteps DEFAULTS, nthreads = nthreads DEFAULTS, args_start = 0, args_end = 0,
      funcname = None, isverbose = False, ishelp = False\<rparr>"

text \<open>
  \<open>parse_args\<close>, for the options \<open>syms\<close> that \<open>getopt\<close> returns and the arguments \<open>pos\<close>
  left after them (\<open>argv[optind]\<close> to \<open>argv[argc - 1]\<close>); \<open>nprocs\<close> is what
  \<open>get_nprocs()\<close> returns. The tests \<open>argc - optind < 2\<close> and \<open>argc - optind > 2\<close> are
  the cases of the length of \<open>pos\<close>; the test of \<open>funcname\<close> comes first, as in the source.
\<close>

definition parse_args ::
  "(string \<Rightarrow> scan_result) \<Rightarrow> int \<Rightarrow> getopt_item list \<Rightarrow> string list \<Rightarrow> args res" where
  "parse_args sscanf nprocs syms pos =
     (case parse_opts sscanf syms init_args of
        Ret a \<Rightarrow>
          (case pos of
             [p0, p1] \<Rightarrow>
               (if funcname a = None then Fail [] PE_NENARGS []
                else
                  (case ld_conv sscanf p0 of
                     None \<Rightarrow> Fail [] PE_WRONGARG p0
                   | Some start \<Rightarrow>
                       (case ld_conv sscanf p1 of
                          None \<Rightarrow> Fail [] PE_WRONGARG p1
                        | Some end \<Rightarrow>
                            if end - start \<le> EPSILON
                            then Fail [Cannot_integrate start end] PE_CVGERR []
                            else Ret (a\<lparr>args_start := start, args_end := end,
                                       nthreads := (if nthreads a = 0 then nprocs else nthreads a)\<rparr>))))
           | [] \<Rightarrow> Fail [] PE_NENARGS []
           | [p0] \<Rightarrow> Fail [] PE_NENARGS []
           | p0 # p1 # p2 # ps \<Rightarrow>
               (if funcname a = None then Fail [] PE_NENARGS [] else Fail [] PE_TMARGS []))
      | Fail out err etc \<Rightarrow> Fail out err etc
      | Help_exit \<Rightarrow> Help_exit
      | Undefined \<Rightarrow> Undefined)"

subsection \<open>The worker\<close>

text \<open>
  \<open>struct thread_args\<close>. \<open>resptr\<close> points to an element of the array \<open>results\<close>: it
  is the index of that element.
\<close>

record 'a thread_args =
  thargs_start :: 'a
  thargs_end :: 'a
  thargs_step :: 'a
  funcptr :: "'a \<Rightarrow> 'a"
  resptr :: nat

text \<open>
  The memory the threads share: the array \<open>results\<close>. Two more fields observe the run
  without taking part in it: \<open>stores\<close> lists the elements of \<open>results\<close> written, in the
  order of the writes, and \<open>calls\<close> counts the calls of the loaded function.
\<close>

record 'a shared =
  results :: "'a list"
  stores :: "nat list"
  calls :: nat

text \<open>
  The loop of \<open>integrate_worker\<close>, from the point \<open>start\<close> with the sum \<open>res\<close> so far and
  \<open>n\<close> calls of \<open>func\<close> so far. A loop that never ends has the value \<open>None\<close>.
\<close>

partial_function (option) integrate_loop ::
  "('a::{plus,times,ord} \<Rightarrow> 'a) \<Rightarrow> 'a \<Rightarrow> 'a \<Rightarrow> 'a \<Rightarrow> 'a \<Rightarrow> nat \<Rightarrow> ('a \<times> nat) option" where
  "integrate_loop func end step start res n =
     (if start < end
      then integrate_loop func end step (start + step) (res + func start * step) (Suc n)
      else Some (res, n))"

text \<open>
  \<open>integrate_worker\<close>: the loop from \<open>res = .0\<close>, then the store \<open>*(args->resptr) = res\<close>.
\<close>

definition integrate_worker ::
  "'a::{zero,plus,times,ord} thread_args \<Rightarrow> 'a shared \<Rightarrow> 'a shared option" where
  "integrate_worker targs mem =
     (case integrate_loop (funcptr targs) (thargs_end targs) (thargs_step targs)
             (thargs_start targs) 0 0 of
        None \<Rightarrow> None
      | Some (res, n) \<Rightarrow>
          Some (mem\<lparr>results := (results mem)[resptr targs := res],
                     stores := stores mem @ [resptr targs],
                     calls := calls mem + n\<rparr>))"

subsection \<open>The threads\<close>

text \<open>
  The arguments of the threads, as the first loop of \<open>main\<close> over \<open>i\<close> fills \<open>thargs\<close>.
\<close>

definition make_thargs :: "args \<Rightarrow> (rat \<Rightarrow> rat) \<Rightarrow> rat thread_args list" where
  "make_thargs a dlfunc =
     (let interval = args_end a - args_start a;
          step = interval / of_int (nsteps a);
          part = interval / of_int (nthreads a)
      in map (\<lambda>i. \<lparr>thargs_start = part * of_int (int i),
                    thargs_end = part * of_int (int i + 1),
                    thargs_step = step,
                    funcptr = dlfunc,
                    resptr = i\<rparr>)
           [0..<nat (nthreads a)])"

text \<open>
  The loop \<open>for (long long k = i; k >= 0; k--) pthread_cancel(threads[i]);\<close> from \<open>k\<close>
  down: the elements of \<open>threads\<close> it passes to \<open>pthread_cancel\<close>, call after call.
\<close>

fun cancel_loop :: "nat \<Rightarrow> nat \<Rightarrow> nat list" where
  "cancel_loop i 0 = [i]"
| "cancel_loop i (Suc k) = i # cancel_loop i k"

text \<open>
  The loop that starts the threads, over the indices still to start. \<open>create_ok i\<close> says
  that \<open>pthread_create\<close> succeeds for thread \<open>i\<close>. The result is the list of the threads
  created when all are, and otherwise the threads created before the failure together
  with the calls of \<open>pthread_cancel\<close>.
\<close>

fun start_threads :: "(nat \<Rightarrow> bool) \<Rightarrow> nat list \<Rightarrow> nat list \<Rightarrow> (nat list \<times> nat list) + nat list" where
  "start_threads create_ok [] started = Inr started"
| "start_threads create_ok (i # todo) started =
     (if create_ok i then start_threads create_ok todo (started @ [i])
      else Inl (started, cancel_loop i i))"

text \<open>
  The threads run without a shared variable but \<open>results\<close>, where each stores once, at
  its end, to an element of its own. A run of all threads is therefore given by the
  order \<open>sched\<close> in which they reach that store; \<open>pthread_join\<close> returns for every thread
  when all have ended, and never when one loops for ever. An entry of \<open>sched\<close> that is
  not the index of a thread stands for nothing.
\<close>

fun run_threads ::
  "nat list \<Rightarrow> 'a::{zero,plus,times,ord} thread_args list \<Rightarrow> 'a shared \<Rightarrow> 'a shared option" where
  "run_threads [] thargs mem = Some mem"
| "run_threads (i # sched) thargs mem =
     (if i < length thargs
      then (case integrate_worker (thargs ! i) mem of
              None \<Rightarrow> None
            | Some mem' \<Rightarrow> run_threads sched thargs mem')
      else run_threads sched thargs mem)"

text \<open>The last loop of \<open>main\<close>: \<open>sum = .0\<close>, then \<open>sum += results[i]\<close> for \<open>i\<close> from 0 up.\<close>

definition sum_results :: "'a::{zero,plus} list \<Rightarrow> 'a" where
  "sum_results rs = foldl (\<lambda>sum r. sum + r) 0 rs"

subsection \<open>The program\<close>

text \<open>The C library and the operating system, as far as the program uses them.\<close>

record env =
  strdup_ok :: bool
  dirname :: "string \<Rightarrow> string"
  basename :: "string \<Rightarrow> string"
  getopt :: "string list \<Rightarrow> getopt_item list \<times> string list"
  sscanf_Lg_c :: "string \<Rightarrow> scan_result"
  get_nprocs :: int
  asprintf_ok :: bool
  dlopen :: "string \<Rightarrow> bool"
  dlsym :: "string \<Rightarrow> (rat \<Rightarrow> rat) option"
  dlerror :: string
  pthread_create_ok :: "nat \<Rightarrow> bool"
  completion :: "nat list"

text \<open>
  What a run of the program leaves behind: its exit code, the numbers printed on standard
  output, the lines on standard error, the modules passed to \<open>dlopen\<close>, the threads
  created, the elements of \<open>threads\<close> passed to \<open>pthread_cancel\<close>, and the number of calls
  of the loaded function.
\<close>

record outcome =
  retcode :: int
  stdout :: "rat list"
  stderr :: "stderr_item list"
  dlopened :: "string list"
  created :: "nat list"
  cancelled :: "nat list"
  func_calls :: nat

definition no_outcome :: outcome where
  "no_outcome =
     \<lparr>retcode = 0, stdout = [], stderr = [], dlopened = [], created = [], cancelled = [],
      func_calls = 0\<rparr>"

datatype process = Exited outcome | Undefined_behaviour

text \<open>
  The end of \<open>main\<close> from the label \<open>bindir_alloc\<close>: \<open>err_handler(err, NULL)\<close> exits unless
  \<open>err\<close> is \<open>PE_OK\<close>, and then \<open>main\<close> returns 0. \<open>finish\<close> is also how the model ends a run
  in which \<open>parse_args\<close> or \<open>main\<close> calls \<open>err_handler\<close> directly.
\<close>

definition finish :: "env \<Rightarrow> error \<Rightarrow> string \<Rightarrow> outcome \<Rightarrow> outcome" where
  "finish env err etc out =
     (case err_handler (dlerror env) err etc of
        None \<Rightarrow> out\<lparr>retcode := 0\<rparr>
      | Some (lines, code) \<Rightarrow> out\<lparr>retcode := code, stderr := stderr out @ lines\<rparr>)"

definition FUNC_PREFIX :: string where "FUNC_PREFIX = ''dlfunc_''"

text \<open>
  \<open>main\<close> from the allocation of the arrays to the end, for the parsed arguments and the
  loaded function; \<open>out\<close> is the outcome so far. The arrays come from \<open>alloca\<close>, which
  does not fail. The result is \<open>None\<close> when a thread never ends.
\<close>

definition integrate :: "env \<Rightarrow> args \<Rightarrow> (rat \<Rightarrow> rat) \<Rightarrow> outcome \<Rightarrow> outcome option" where
  "integrate env a dlfunc out =
     (let thargs = make_thargs a dlfunc;
          mem = \<lparr>results = replicate (nat (nthreads a)) 0, stores = [], calls = 0\<rparr>
      in case start_threads (pthread_create_ok env) [0..<nat (nthreads a)] [] of
           Inl (started, cancels) \<Rightarrow>
             Some (finish env PE_THREAD [] (out\<lparr>created := started, cancelled := cancels\<rparr>))
         | Inr started \<Rightarrow>
             (case run_threads (completion env) thargs mem of
                None \<Rightarrow> None
              | Some mem' \<Rightarrow>
                  Some (finish env PE_OK []
                    (out\<lparr>created := started,
                         stdout := stdout out @ [sum_results (results mem')],
                         func_calls := calls mem'\<rparr>))))"

text \<open>
  \<open>main\<close>, for the program name \<open>argv[0]\<close> and the other arguments \<open>argv[1]\<close> to
  \<open>argv[argc - 1]\<close>. The second \<open>asprintf\<close>, whose result the source does not test,
  succeeds.
\<close>

definition main :: "env \<Rightarrow> string \<Rightarrow> string list \<Rightarrow> process option" where
  "main env progname argv =
     (if strdup_ok env then
        (let bindir = dirname env progname; prog = basename env progname
         in if argv = [] then Some (Exited (finish env PE_NOARGS prog no_outcome))
            else
              (case parse_args (sscanf_Lg_c env) (get_nprocs env)
                      (fst (getopt env (prog # argv))) (snd (getopt env (prog # argv))) of
                 Help_exit \<Rightarrow>
                   Some (Exited (no_outcome\<lparr>retcode := error_retcodes PE_OK,
                                            stderr := [Usage_text prog, Help_text]\<rparr>))
               | Undefined \<Rightarrow> Some Undefined_behaviour
               | Fail lines err etc \<Rightarrow>
                   Some (Exited (finish env err etc (no_outcome\<lparr>stderr := lines\<rparr>)))
               | Ret a \<Rightarrow>
                   (if asprintf_ok env then
                      (let fname = FUNC_PREFIX @ (case funcname a of Some f \<Rightarrow> f | None \<Rightarrow> []);
                           ldname = bindir @ ''/'' @ fname @ ''.so'';
                           out = no_outcome\<lparr>dlopened := [ldname]\<rparr>
                       in if dlopen env ldname then
                            (case dlsym env fname of
                               None \<Rightarrow> Some (Exited (finish env PE_DLERR [] out))
                             | Some dlfunc \<Rightarrow> map_option Exited (integrate env a dlfunc out))
                          else Some (Exited (finish env PE_DLERR [] out)))
                    else Some (Exited (finish env PE_MALLOC [] no_outcome)))))
      else Some (Exited (finish env PE_MALLOC [] no_outcome)))"

subsection \<open>Notions of the specification and example runs\<close>

text \<open>Truncation toward zero: the integral part of the magnitude, with the sign.\<close>

definition truncated :: "rat \<Rightarrow> int" where
  "truncated x = (if x < 0 then - \<lfloor>\<bar>x\<bar>\<rfloor> else \<lfloor>\<bar>x\<bar>\<rfloor>)"

text \<open>
  A \<open>getopt\<close> for command lines in which every option stands alone and the argument of
  an option is the next word.
\<close>

fun scan_argv :: "string list \<Rightarrow> getopt_item list \<times> string list" where
  "scan_argv [] = ([], [])"
| "scan_argv [a] =
     (if a = ''-h'' then ([Opt_h], [])
      else if a = ''-v'' then ([Opt_v], [])
      else if hd a = CHR ''-'' then ([Opt_unknown a], [])
      else ([], [a]))"
| "scan_argv (a # b # rest) =
     (if a = ''-h'' then (Opt_h # fst (scan_argv (b # rest)), snd (scan_argv (b # rest)))
      else if a = ''-v'' then (Opt_v # fst (scan_argv (b # rest)), snd (scan_argv (b # rest)))
      else if a = ''-t'' then (Opt_t b # fst (scan_argv rest), snd (scan_argv rest))
      else if a = ''-n'' then (Opt_n b # fst (scan_argv rest), snd (scan_argv rest))
      else if a = ''-F'' then (Opt_F b # fst (scan_argv rest), snd (scan_argv rest))
      else if hd a = CHR ''-'' then
        (Opt_unknown a # fst (scan_argv (b # rest)), snd (scan_argv (b # rest)))
      else (fst (scan_argv (b # rest)), a # snd (scan_argv (b # rest))))"

text \<open>The value of \<open>long double\<close> (64 bits of precision) nearest to 2.9.\<close>

definition ld_2_9 :: rat where
  "ld_2_9 = 13373889453439424922 / 2 ^ 62"

text \<open>What \<open>sscanf\<close> reads from the strings of the examples.\<close>

definition scan_number :: "string \<Rightarrow> scan_result" where
  "scan_number s =
     (if s = ''0'' then Scan_one (Finite 0)
      else if s = ''1'' then Scan_one (Finite 1)
      else if s = ''2'' then Scan_one (Finite 2)
      else if s = ''3'' then Scan_one (Finite 3)
      else if s = ''2.9'' then Scan_one (Finite ld_2_9)
      else if s = ''0x1p-30'' then Scan_one (Finite (1 / 2 ^ 30))
      else if s = ''inf'' then Scan_one Nonfinite
      else if s = ''2x'' then Scan_two (Finite 2) (CHR ''x'')
      else Scan_none)"

text \<open>The function of the examples, and two answers of \<open>pthread_create\<close>.\<close>

definition identity :: "rat \<Rightarrow> rat" where
  "identity x = x"

definition all_created :: "nat \<Rightarrow> bool" where
  "all_created i = True"

definition third_fails :: "nat \<Rightarrow> bool" where
  "third_fails i = (i < 2)"

text \<open>
  A system on which the module \<open>./dlfunc_id.so\<close> exists and holds the identity as
  \<open>dlfunc_id\<close>; which threads can be created and the order in which they end are left
  open.
\<close>

definition example_env :: "(nat \<Rightarrow> bool) \<Rightarrow> nat list \<Rightarrow> env" where
  "example_env create_ok sched =
     \<lparr>strdup_ok = True,
      dirname = (\<lambda>path. ''.''),
      basename = (\<lambda>path. path),
      getopt = (\<lambda>argv. scan_argv (tl argv)),
      sscanf_Lg_c = scan_number,
      get_nprocs = 4,
      asprintf_ok = True,
      dlopen = (\<lambda>ldname. ldname = ''./dlfunc_id.so''),
      dlsym = (\<lambda>name. if name = ''dlfunc_id'' then Some identity else None),
      dlerror = ''cannot open shared object file'',
      pthread_create_ok = create_ok,
      completion = sched\<rparr>"

text \<open>
  The points of the left-rectangle rule as the specification describes them: the first
  is \<open>start\<close>, and each of the others is the one before it plus \<open>step\<close>.
\<close>

definition sample_point :: "'a::plus \<Rightarrow> 'a \<Rightarrow> nat \<Rightarrow> 'a" where
  "sample_point start step k = ((\<lambda>x. x + step) ^^ k) start"

text \<open>The number a worker computes from its arguments, when its loop ends.\<close>

definition worker_value :: "'a::{zero,plus,times,ord} thread_args \<Rightarrow> 'a option" where
  "worker_value targs =
     map_option fst
       (integrate_loop (funcptr targs) (thargs_end targs) (thargs_step targs)
          (thargs_start targs) 0 0)"

text \<open>Two threads for the identity on the halves of the interval from 0 to 1.\<close>

definition example_thargs :: "rat thread_args list" where
  "example_thargs =
     [\<lparr>thargs_start = 0, thargs_end = 1 / 2, thargs_step = 1 / 4, funcptr = identity, resptr = 0\<rparr>,
      \<lparr>thargs_start = 1 / 2, thargs_end = 1, thargs_step = 1 / 4, funcptr = identity, resptr = 1\<rparr>]"

definition example_mem :: "rat shared" where
  "example_mem = \<lparr>results = [0, 0], stores = [], calls = 0\<rparr>"

section \<open>Properties\<close>

lemmas exit_codes =
  EXIT_SUCCESS_def EXIT_FAILURE_def EX_USAGE_def EX_DATAERR_def EX_SOFTWARE_def EX_OSERR_def

lemmas example_simps =
  example_env_def identity_def all_created_def third_fails_def scan_number_def ld_conv_def ll_of_real_def LLONG_MIN_def LLONG_MAX_def
  parse_args_def init_args_def DEFAULTS_def EPSILON_def FLT_EPSILON_def

subsection \<open>Exit codes\<close>

text \<open>
  C7. Every error with which the program ends gives the exit code of its category: the
  four usage errors \<open>EX_USAGE\<close>, the data error \<open>EX_DATAERR\<close>, the two resource errors
  \<open>EX_OSERR\<close>, the loader error \<open>EX_SOFTWARE\<close>; without an error \<open>main\<close> returns 0; and
  the five codes differ from one another, so those of the errors are not zero.
\<close>

theorem exit_code_by_error_kind:
  "retcode (finish env PE_NOARGS etc out) = EX_USAGE \<and>
   retcode (finish env PE_WRONGARG etc out) = EX_USAGE \<and>
   retcode (finish env PE_NENARGS etc out) = EX_USAGE \<and>
   retcode (finish env PE_TMARGS etc out) = EX_USAGE \<and>
   retcode (finish env PE_CVGERR etc out) = EX_DATAERR \<and>
   retcode (finish env PE_MALLOC etc out) = EX_OSERR \<and>
   retcode (finish env PE_THREAD etc out) = EX_OSERR \<and>
   retcode (finish env PE_DLERR etc out) = EX_SOFTWARE \<and>
   retcode (finish env PE_OK etc out) = 0 \<and>
   distinct [0, EX_USAGE, EX_DATAERR, EX_OSERR, EX_SOFTWARE]"
  by (simp add: finish_def report_def exit_codes)

subsection \<open>Parsing the arguments\<close>

lemma DEFAULTS_values: "nsteps DEFAULTS = 10000000" "nthreads DEFAULTS = 1"
  by (simp_all add: DEFAULTS_def ll_of_real_def LLONG_MIN_def LLONG_MAX_def)

lemma parse_opts_Cons_Ret:
  assumes "parse_opts sscanf (opt # syms) a = Ret a'"
  obtains b where "parse_opt sscanf opt a = Ret b" and "parse_opts sscanf syms b = Ret a'"
  using assms by (auto split: res.splits)

lemma parse_opt_keeps_defaults:
  assumes "parse_opt sscanf opt a = Ret a'" and "\<And>s. opt \<noteq> Opt_t s" and "\<And>s. opt \<noteq> Opt_n s"
  shows "nsteps a' = nsteps a \<and> nthreads a' = nthreads a"
  using assms by (cases opt) auto

lemma parse_opts_keeps_defaults:
  assumes "parse_opts sscanf syms a = Ret a'"
    and "\<And>s. Opt_t s \<notin> set syms" and "\<And>s. Opt_n s \<notin> set syms"
  shows "nsteps a' = nsteps a \<and> nthreads a' = nthreads a"
  using assms
proof (induction syms arbitrary: a)
  case Nil
  then show ?case by simp
next
  case (Cons opt syms)
  from Cons.prems(1) obtain b where b: "parse_opt sscanf opt a = Ret b"
    and rest: "parse_opts sscanf syms b = Ret a'"
    by (rule parse_opts_Cons_Ret)
  have "nsteps b = nsteps a \<and> nthreads b = nthreads a"
    using b Cons.prems(2,3) by (intro parse_opt_keeps_defaults[OF b]) auto
  moreover have "nsteps a' = nsteps b \<and> nthreads a' = nthreads b"
    using Cons.IH[OF rest] Cons.prems(2,3) by auto
  ultimately show ?case by simp
qed

lemma parse_args_Ret:
  assumes "parse_args sscanf nprocs syms pos = Ret a"
  obtains a0 p0 p1 s e where "parse_opts sscanf syms init_args = Ret a0" "pos = [p0, p1]"
    "ld_conv sscanf p0 = Some s" "ld_conv sscanf p1 = Some e" "\<not> e - s \<le> EPSILON"
    "funcname a0 \<noteq> None"
    "a = a0\<lparr>args_start := s, args_end := e,
            nthreads := (if nthreads a0 = 0 then nprocs else nthreads a0)\<rparr>"
  using assms unfolding parse_args_def
  by (auto split: res.splits list.splits if_splits option.splits)

text \<open>
  C10. When no \<open>-n\<close> and no \<open>-t\<close> is among the options and \<open>parse_args\<close> returns, the
  arguments it returns have 10,000,000 steps and 1 thread.
\<close>

theorem defaults_without_n_and_t:
  assumes "\<And>s. Opt_t s \<notin> set syms" and "\<And>s. Opt_n s \<notin> set syms"
    and "parse_args sscanf nprocs syms pos = Ret a"
  shows "nsteps a = 10000000 \<and> nthreads a = 1"
proof -
  from assms(3) obtain a0 s e where a0: "parse_opts sscanf syms init_args = Ret a0"
    and a: "a = a0\<lparr>args_start := s, args_end := e,
                   nthreads := (if nthreads a0 = 0 then nprocs else nthreads a0)\<rparr>"
    by (rule parse_args_Ret)
  have "nsteps a0 = nsteps init_args \<and> nthreads a0 = nthreads init_args"
    using parse_opts_keeps_defaults[OF a0] assms(1,2) by blast
  then show ?thesis
    by (simp add: a init_args_def DEFAULTS_values)
qed

theorem defaults_without_n_and_t_witness:
  "parse_args scan_number 4 [Opt_v, Opt_F ''id''] [''1'', ''3''] =
     Ret (init_args\<lparr>isverbose := True, funcname := Some ''id'', args_start := 1, args_end := 3\<rparr>) \<and>
   nsteps (init_args\<lparr>isverbose := True, funcname := Some ''id'', args_start := 1, args_end := 3\<rparr>)
     = 10000000 \<and>
   nthreads (init_args\<lparr>isverbose := True, funcname := Some ''id'', args_start := 1, args_end := 3\<rparr>)
     = 1"
proof -
  have t: "\<And>s. Opt_t s \<notin> set [Opt_v, Opt_F ''id'']"
    and n: "\<And>s. Opt_n s \<notin> set [Opt_v, Opt_F ''id'']"
    by simp_all
  have r: "parse_args scan_number 4 [Opt_v, Opt_F ''id''] [''1'', ''3''] =
      Ret (init_args\<lparr>isverbose := True, funcname := Some ''id'', args_start := 1, args_end := 3\<rparr>)"
    by (simp add: parse_args_def scan_number_def ld_conv_def EPSILON_def FLT_EPSILON_def
        init_args_def DEFAULTS_values)
  show ?thesis
    using defaults_without_n_and_t[OF t n r] r by simp
qed

lemma ll_of_real_truncated:
  "ll_of_real x =
     (if LLONG_MIN \<le> truncated x \<and> truncated x \<le> LLONG_MAX then Some (truncated x) else None)"
  by (simp add: ll_of_real_def truncated_def ceiling_def Let_def)

text \<open>
  C8. When the value of \<open>-t\<close> or \<open>-n\<close> is read as a finite number with nothing after it,
  and its integral part is in the range of \<open>long long\<close>, the option is rejected only for
  the sign of the value truncated toward zero: \<open>-t\<close> when it is negative, \<open>-n\<close> when it is
  not positive. Otherwise the truncated value becomes the number of threads or of steps,
  whatever the fractional part.
\<close>

theorem option_values_truncated:
  assumes "sscanf optarg = Scan_one (Finite x)"
    and "LLONG_MIN \<le> truncated x" and "truncated x \<le> LLONG_MAX"
  shows "parse_opt sscanf (Opt_t optarg) a =
           (if truncated x < 0 then Fail [] PE_WRONGARG optarg
            else Ret (a\<lparr>nthreads := truncated x\<rparr>)) \<and>
         parse_opt sscanf (Opt_n optarg) a =
           (if truncated x \<le> 0 then Fail [] PE_WRONGARG optarg
            else Ret (a\<lparr>nsteps := truncated x\<rparr>))"
  using assms by (simp add: ld_conv_def ll_of_real_truncated)

text \<open>The other rejections of a value: \<open>ld_conv\<close> fails, in one of three ways.\<close>

lemma ld_conv_None_iff:
  "ld_conv sscanf str = None \<longleftrightarrow>
     sscanf str = Scan_none \<or> sscanf str = Scan_one Nonfinite \<or>
     (\<exists>v c. sscanf str = Scan_two v c)"
  by (auto simp: ld_conv_def split: scan_result.splits ldval.splits)

lemma option_rejected_only_if:
  "parse_opt sscanf (Opt_t optarg) a = Fail out err etc \<Longrightarrow>
     ld_conv sscanf optarg = None \<or> (\<exists>x. ld_conv sscanf optarg = Some x \<and> truncated x < 0)"
  "parse_opt sscanf (Opt_n optarg) a = Fail out err etc \<Longrightarrow>
     ld_conv sscanf optarg = None \<or> (\<exists>x. ld_conv sscanf optarg = Some x \<and> truncated x \<le> 0)"
  by (auto simp: ll_of_real_truncated split: option.splits if_splits)

lemma truncated_2_9: "truncated ld_2_9 = 2"
  by (simp add: truncated_def ld_2_9_def floor_eq_iff)

theorem option_values_truncated_witness:
  "parse_opt scan_number (Opt_t ''2.9'') init_args = Ret (init_args\<lparr>nthreads := 2\<rparr>) \<and>
   parse_opt scan_number (Opt_n ''2.9'') init_args = Ret (init_args\<lparr>nsteps := 2\<rparr>)"
proof -
  have s: "scan_number ''2.9'' = Scan_one (Finite ld_2_9)"
    by (simp add: scan_number_def)
  have lo: "LLONG_MIN \<le> truncated ld_2_9" and hi: "truncated ld_2_9 \<le> LLONG_MAX"
    by (simp_all add: truncated_2_9 LLONG_MIN_def LLONG_MAX_def)
  show ?thesis
    using option_values_truncated[of scan_number "''2.9''" ld_2_9 init_args, OF s lo hi]
    by (simp add: truncated_2_9)
qed

lemma parse_opts_no_F:
  assumes "parse_opts sscanf syms a = Ret a'" and "\<And>f. Opt_F f \<notin> set syms"
  shows "funcname a' = funcname a"
  using assms
proof (induction syms arbitrary: a)
  case Nil
  then show ?case by simp
next
  case (Cons opt syms)
  from Cons.prems(1) obtain b where b: "parse_opt sscanf opt a = Ret b"
    and rest: "parse_opts sscanf syms b = Ret a'"
    by (rule parse_opts_Cons_Ret)
  have "\<And>f. opt \<noteq> Opt_F f" using Cons.prems(2) by auto
  then have "funcname b = funcname a"
    using b by (cases opt) (auto split: option.splits if_splits)
  moreover have "funcname a' = funcname b"
    using Cons.IH[OF rest] Cons.prems(2) by auto
  ultimately show ?case by simp
qed

lemma parse_args_no_funcname:
  assumes "parse_opts sscanf syms init_args = Ret a" and "funcname a = None"
  shows "parse_args sscanf nprocs syms pos = Fail [] PE_NENARGS []"
  using assms unfolding parse_args_def by (simp split: list.splits)

text \<open>Without \<open>-F\<close>, \<open>parse_args\<close> never returns, whatever the rest of the command line.\<close>

lemma no_F_never_returns:
  assumes "\<And>f. Opt_F f \<notin> set syms"
  shows "parse_args sscanf nprocs syms pos \<noteq> Ret a"
proof
  assume "parse_args sscanf nprocs syms pos = Ret a"
  then obtain a0 where a0: "parse_opts sscanf syms init_args = Ret a0" and "funcname a0 \<noteq> None"
    by (rule parse_args_Ret)
  moreover have "funcname a0 = funcname init_args"
    using parse_opts_no_F[OF a0] assms by blast
  ultimately show False by (simp add: init_args_def)
qed

text \<open>
  C9. When the program has arguments, none of the options is \<open>-F\<close> and the option loop
  runs to its end (no \<open>-h\<close>, no option it rejects), \<open>parse_args\<close> ends in the error
  \<open>PE_NENARGS\<close> whatever the other arguments are: the program prints
  \<open>Error: Not enough arguments.\<close> and exits with \<open>EX_USAGE\<close>, and it has opened no
  module, created no thread and printed no result.
\<close>

theorem missing_F_not_enough_arguments:
  assumes "strdup_ok env" and "argv \<noteq> []"
    and "getopt env (basename env progname # argv) = (syms, pos)"
    and "\<And>f. Opt_F f \<notin> set syms"
    and "parse_opts (sscanf_Lg_c env) syms init_args = Ret a"
  shows "parse_args (sscanf_Lg_c env) (get_nprocs env) syms pos = Fail [] PE_NENARGS [] \<and>
         main env progname argv =
           Some (Exited \<lparr>retcode = EX_USAGE, stdout = [],
                         stderr = [Error_line ''Error: Not enough arguments.''],
                         dlopened = [], created = [], cancelled = [], func_calls = 0\<rparr>)"
proof -
  have "funcname a = funcname init_args"
    using parse_opts_no_F[OF assms(5)] assms(4) by blast
  then have "funcname a = None" by (simp add: init_args_def)
  then have p: "parse_args (sscanf_Lg_c env) (get_nprocs env) syms pos = Fail [] PE_NENARGS []"
    using assms(5) by (rule parse_args_no_funcname[rotated])
  show ?thesis
    using p assms(1,2,3) by (simp add: main_def finish_def report_def no_outcome_def)
qed

theorem missing_F_not_enough_arguments_witness:
  "main (example_env all_created [0]) ''int'' [''-t'', ''2'', ''1'', ''3''] =
     Some (Exited \<lparr>retcode = EX_USAGE, stdout = [],
                   stderr = [Error_line ''Error: Not enough arguments.''],
                   dlopened = [], created = [], cancelled = [], func_calls = 0\<rparr>)"
proof -
  let ?env = "example_env all_created [0]"
  have 1: "strdup_ok ?env" by (simp add: example_env_def)
  have 2: "[''-t'', ''2'', ''1'', ''3''] \<noteq> []" by simp
  have 3: "getopt ?env (basename ?env ''int'' # [''-t'', ''2'', ''1'', ''3'']) =
      ([Opt_t ''2''], [''1'', ''3''])"
    by (simp add: example_env_def)
  have 4: "\<And>f. Opt_F f \<notin> set [Opt_t ''2'']" by simp
  have 5: "parse_opts (sscanf_Lg_c ?env) [Opt_t ''2''] init_args = Ret (init_args\<lparr>nthreads := 2\<rparr>)"
    by (simp add: example_env_def scan_number_def ld_conv_def ll_of_real_def
        LLONG_MIN_def LLONG_MAX_def)
  show ?thesis
    using missing_F_not_enough_arguments[OF 1 2 3 4 5] by simp
qed




subsection \<open>The worker\<close>

lemma sample_point_0 [simp]: "sample_point start step 0 = start"
  by (simp add: sample_point_def)










subsection \<open>The threads and the sum of their results\<close>

lemma integrate_worker_Some:
  assumes "integrate_loop (funcptr targs) (thargs_end targs) (thargs_step targs)
             (thargs_start targs) 0 0 = Some (v, n)"
  shows "integrate_worker targs mem =
     Some (mem\<lparr>results := (results mem)[resptr targs := v],
               stores := stores mem @ [resptr targs], calls := calls mem + n\<rparr>)"
  using assms by (simp add: integrate_worker_def)

lemma integrate_worker_None:
  assumes "integrate_loop (funcptr targs) (thargs_end targs) (thargs_step targs)
             (thargs_start targs) 0 0 = None"
  shows "integrate_worker targs mem = None"
  using assms by (simp add: integrate_worker_def)

lemma length_fold_update [simp]: "length (fold (\<lambda>i rs. rs[i := v i]) sched rs) = length rs"
  by (induction sched arbitrary: rs) simp_all

lemma nth_fold_update:
  assumes "j < length rs"
  shows "fold (\<lambda>i rs. rs[i := v i]) sched rs ! j = (if j \<in> set sched then v j else rs ! j)"
  using assms
proof (induction sched arbitrary: rs)
  case Nil
  then show ?case by simp
next
  case (Cons i sched)
  have "fold (\<lambda>i rs. rs[i := v i]) (i # sched) rs ! j =
      (if j \<in> set sched then v j else rs[i := v i] ! j)"
    using Cons.IH[of "rs[i := v i]"] Cons.prems by simp
  then show ?case using Cons.prems by (auto simp: nth_list_update)
qed

lemma fold_update_all:
  assumes "set sched = {0..<length rs}"
  shows "fold (\<lambda>i rs. rs[i := v i]) sched rs = map v [0..<length rs]"
proof (rule nth_equalityI)
  show "length (fold (\<lambda>i rs. rs[i := v i]) sched rs) = length (map v [0..<length rs])"
    by simp
next
  fix j
  assume "j < length (fold (\<lambda>i rs. rs[i := v i]) sched rs)"
  then have j: "j < length rs" by simp
  then show "fold (\<lambda>i rs. rs[i := v i]) sched rs ! j = map v [0..<length rs] ! j"
    using assms by (simp add: nth_fold_update)
qed

text \<open>
  When every thread ends, with the value \<open>v i\<close> after \<open>n i\<close> calls, the threads that end
  in the order \<open>sched\<close> leave their values in their elements of \<open>results\<close>.
\<close>

lemma run_threads_all_end:
  assumes "\<And>i. i \<in> set sched \<Longrightarrow> i < length thargs"
    and "\<And>i. i < length thargs \<Longrightarrow> resptr (thargs ! i) = i"
    and "\<And>i. i < length thargs \<Longrightarrow>
           integrate_loop (funcptr (thargs ! i)) (thargs_end (thargs ! i))
             (thargs_step (thargs ! i)) (thargs_start (thargs ! i)) 0 0 = Some (v i, n i)"
  shows "run_threads sched thargs mem =
     Some \<lparr>results = fold (\<lambda>i rs. rs[i := v i]) sched (results mem),
           stores = stores mem @ sched,
           calls = calls mem + sum_list (map n sched)\<rparr>"
  using assms(1)
proof (induction sched arbitrary: mem)
  case Nil
  then show ?case by simp
next
  case (Cons i sched)
  have i: "i < length thargs" using Cons.prems by simp
  have w: "integrate_worker (thargs ! i) mem =
      Some (mem\<lparr>results := (results mem)[i := v i], stores := stores mem @ [i],
                calls := calls mem + n i\<rparr>)"
    using integrate_worker_Some[OF assms(3)[OF i], of mem] assms(2)[OF i] by simp
  have "run_threads (i # sched) thargs mem =
      run_threads sched thargs (mem\<lparr>results := (results mem)[i := v i], stores := stores mem @ [i],
                calls := calls mem + n i\<rparr>)"
    using i w by simp
  also have "\<dots> = Some \<lparr>results = fold (\<lambda>i rs. rs[i := v i]) (i # sched) (results mem),
           stores = stores mem @ i # sched,
           calls = calls mem + sum_list (map n (i # sched))\<rparr>"
    using Cons.prems by (subst Cons.IH) (simp_all add: add.assoc)
  finally show ?case .
qed

lemma run_threads_one_loops:
  assumes "i \<in> set sched" and "i < length thargs"
    and "integrate_loop (funcptr (thargs ! i)) (thargs_end (thargs ! i))
             (thargs_step (thargs ! i)) (thargs_start (thargs ! i)) 0 0 = None"
  shows "run_threads sched thargs mem = None"
  using assms(1)
proof (induction sched arbitrary: mem)
  case Nil
  then show ?case by simp
next
  case (Cons j sched)
  show ?case
  proof (cases "j = i")
    case True
    then show ?thesis
      using assms(2) integrate_worker_None[OF assms(3)] by simp
  next
    case False
    then have "i \<in> set sched" using Cons.prems by simp
    then have "\<And>mem'. run_threads sched thargs mem' = None" by (rule Cons.IH)
    then show ?thesis by (simp split: option.splits)
  qed
qed

text \<open>
  C5. For every arithmetic, rounded or not: when each thread stores to the element of
  \<open>results\<close> with its own index, the number printed after the join is the same for
  every order in which the threads end. It is the sum, from 0 and in the order of the
  indices, of the numbers the workers compute, each from its own arguments alone; and
  nothing is printed when one of the workers never ends. With one thread the only order
  is \<open>[0]\<close>.
\<close>

theorem sum_independent_of_completion_order:
  fixes thargs :: "'a::{zero,plus,times,ord} thread_args list"
  assumes "distinct sched" and "set sched = {0..<length thargs}"
    and "\<And>i. i < length thargs \<Longrightarrow> resptr (thargs ! i) = i"
    and "length (results mem) = length thargs"
  shows "map_option (\<lambda>mem'. sum_results (results mem')) (run_threads sched thargs mem) =
     (if list_all (\<lambda>targs. worker_value targs \<noteq> None) thargs
      then Some (sum_results (map (\<lambda>targs. the (worker_value targs)) thargs))
      else None)"
proof (cases "list_all (\<lambda>targs. worker_value targs \<noteq> None) thargs")
  case True
  define v where "v i = fst (the (integrate_loop (funcptr (thargs ! i)) (thargs_end (thargs ! i))
             (thargs_step (thargs ! i)) (thargs_start (thargs ! i)) 0 0))" for i
  define n where "n i = snd (the (integrate_loop (funcptr (thargs ! i)) (thargs_end (thargs ! i))
             (thargs_step (thargs ! i)) (thargs_start (thargs ! i)) 0 0))" for i
  have ends: "integrate_loop (funcptr (thargs ! i)) (thargs_end (thargs ! i))
             (thargs_step (thargs ! i)) (thargs_start (thargs ! i)) 0 0 = Some (v i, n i)"
    if "i < length thargs" for i
  proof -
    have "worker_value (thargs ! i) \<noteq> None"
      using True that by (simp add: list_all_length)
    then show ?thesis by (auto simp: worker_value_def v_def n_def)
  qed
  have val: "the (worker_value (thargs ! i)) = v i" if "i < length thargs" for i
    using ends[OF that] by (simp add: worker_value_def)
  have "run_threads sched thargs mem =
     Some \<lparr>results = fold (\<lambda>i rs. rs[i := v i]) sched (results mem),
           stores = stores mem @ sched,
           calls = calls mem + sum_list (map n sched)\<rparr>"
    using assms(2) by (intro run_threads_all_end assms(3) ends) auto
  moreover have "fold (\<lambda>i rs. rs[i := v i]) sched (results mem) = map v [0..<length thargs]"
    using fold_update_all[of sched "results mem" v] assms(2,4) by simp
  moreover have "map v [0..<length thargs] = map (\<lambda>targs. the (worker_value targs)) thargs"
    by (rule nth_equalityI) (simp_all add: val)
  ultimately show ?thesis using True by simp
next
  case False
  then obtain i where i: "i < length thargs" and "worker_value (thargs ! i) = None"
    by (auto simp: list_all_length)
  then have "integrate_loop (funcptr (thargs ! i)) (thargs_end (thargs ! i))
             (thargs_step (thargs ! i)) (thargs_start (thargs ! i)) 0 0 = None"
    by (simp add: worker_value_def)
  moreover have "i \<in> set sched" using assms(2) i by simp
  ultimately have "run_threads sched thargs mem = None"
    using i by (intro run_threads_one_loops[of i]) auto
  then show ?thesis using False by simp
qed

lemma example_thargs_slots:
  "i < length example_thargs \<Longrightarrow> resptr (example_thargs ! i) = i"
  by (cases i) (simp_all add: example_thargs_def)

theorem sum_independent_of_completion_order_witness:
  "map_option (\<lambda>mem'. sum_results (results mem')) (run_threads [1, 0] example_thargs example_mem) =
     Some (3 / 8) \<and>
   map_option (\<lambda>mem'. sum_results (results mem')) (run_threads [0, 1] example_thargs example_mem) =
     Some (3 / 8)"
proof -
  have all: "list_all (\<lambda>targs. worker_value targs \<noteq> None) example_thargs"
    by (simp add: example_thargs_def identity_def worker_value_def integrate_loop.simps
        del: not_None_eq)
  have sum: "sum_results (map (\<lambda>targs. the (worker_value targs)) example_thargs) = 3 / 8"
    by (simp add: example_thargs_def identity_def worker_value_def integrate_loop.simps
        sum_results_def)
  have s: "set [1, 0] = {0..<length example_thargs}" "set [0, 1] = {0..<length example_thargs}"
    by (auto simp: example_thargs_def)
  have d: "distinct [1, 0::nat]" "distinct [0, 1::nat]" by simp_all
  have l: "length (results example_mem) = length example_thargs"
    by (simp add: example_mem_def example_thargs_def)
  show ?thesis
    using sum_independent_of_completion_order[OF d(1) s(1) example_thargs_slots l]
      sum_independent_of_completion_order[OF d(2) s(2) example_thargs_slots l]
    by (simp only: all sum if_True simp_thms)
qed

subsection \<open>The parts of the interval and the number of calls\<close>

lemma length_make_thargs [simp]: "length (make_thargs a dlfunc) = nat (nthreads a)"
  by (simp add: make_thargs_def Let_def)

lemma nth_make_thargs:
  assumes "i < nat (nthreads a)"
  shows "make_thargs a dlfunc ! i =
     \<lparr>thargs_start = (args_end a - args_start a) / of_int (nthreads a) * of_int (int i),
      thargs_end = (args_end a - args_start a) / of_int (nthreads a) * of_int (int i + 1),
      thargs_step = (args_end a - args_start a) / of_int (nsteps a),
      funcptr = dlfunc,
      resptr = i\<rparr>"
  using assms by (simp add: make_thargs_def Let_def)

text \<open>
  What the parts are, in exact arithmetic: one per thread, all of the width
  \<open>(end - start) / T\<close>, each beginning where the one before it ends, the first at 0 and
  the last ending at \<open>end - start\<close>.
\<close>

lemma parts_tile_from_zero:
  assumes "0 < nthreads a" and "i < nat (nthreads a)"
  shows "length (make_thargs a dlfunc) = nat (nthreads a)"
    and "thargs_start (make_thargs a dlfunc ! 0) = 0"
    and "thargs_end (make_thargs a dlfunc ! i) - thargs_start (make_thargs a dlfunc ! i) =
           (args_end a - args_start a) / of_int (nthreads a)"
    and "Suc i < nat (nthreads a) \<Longrightarrow>
           thargs_start (make_thargs a dlfunc ! Suc i) = thargs_end (make_thargs a dlfunc ! i)"
    and "thargs_end (make_thargs a dlfunc ! (nat (nthreads a) - 1)) = args_end a - args_start a"
proof -
  show "length (make_thargs a dlfunc) = nat (nthreads a)" by simp
  show "thargs_start (make_thargs a dlfunc ! 0) = 0"
    using assms(1) by (simp add: nth_make_thargs)
  define part where "part = (args_end a - args_start a) / of_int (nthreads a)"
  have "thargs_end (make_thargs a dlfunc ! i) - thargs_start (make_thargs a dlfunc ! i) =
      part * (of_int (int i) + 1) - part * of_int (int i)"
    using assms(2) by (simp add: nth_make_thargs part_def)
  also have "\<dots> = part" by (simp add: algebra_simps)
  finally show "thargs_end (make_thargs a dlfunc ! i) - thargs_start (make_thargs a dlfunc ! i) =
           (args_end a - args_start a) / of_int (nthreads a)"
    by (simp add: part_def)
  show "thargs_start (make_thargs a dlfunc ! Suc i) = thargs_end (make_thargs a dlfunc ! i)"
    if "Suc i < nat (nthreads a)"
    using that assms(2) by (simp add: nth_make_thargs add.commute)
  have "of_int (int (nat (nthreads a) - 1) + 1) = (of_int (nthreads a) :: rat)"
    using assms(1) by (simp add: of_nat_diff)
  then show "thargs_end (make_thargs a dlfunc ! (nat (nthreads a) - 1)) = args_end a - args_start a"
    using assms(1) by (simp add: nth_make_thargs)
qed

text \<open>
  C1, at the interval from 1 to 3 with two threads and two steps: the parts are the
  intervals from 0 to 1 and from 1 to 2, not those from 1 to 2 and from 2 to 3, and for
  the identity the program prints \<open>0 * 1 + 1 * 1 = 1\<close>, where the left rectangles of
  the interval from 1 to 3 give \<open>1 * 1 + 2 * 1 = 3\<close>.
\<close>

theorem partitions_start_at_zero:
  "map thargs_start
     (make_thargs \<lparr>nsteps = 2, nthreads = 2, args_start = 1, args_end = 3,
                   funcname = Some ''id'', isverbose = False, ishelp = False\<rparr> identity) =
     [0, 1] \<and>
   map thargs_end
     (make_thargs \<lparr>nsteps = 2, nthreads = 2, args_start = 1, args_end = 3,
                   funcname = Some ''id'', isverbose = False, ishelp = False\<rparr> identity) =
     [1, 2] \<and>
   main (example_env all_created [1, 0]) ''int''
       [''-t'', ''2'', ''-n'', ''2'', ''-F'', ''id'', ''1'', ''3''] =
     Some (Exited \<lparr>retcode = 0, stdout = [1], stderr = [],
                   dlopened = [''./dlfunc_id.so''], created = [0, 1], cancelled = [],
                   func_calls = 2\<rparr>)"
proof -
  have up: "[0..<2] = [0, Suc 0]" by (simp add: upt_rec)
  have rep: "replicate 2 (0::rat) = [0, 0]" by (simp add: numeral_2_eq_2)
  have 1: "map thargs_start
     (make_thargs \<lparr>nsteps = 2, nthreads = 2, args_start = 1, args_end = 3,
                   funcname = Some ''id'', isverbose = False, ishelp = False\<rparr> identity) =
     [0, 1]"
    "map thargs_end
     (make_thargs \<lparr>nsteps = 2, nthreads = 2, args_start = 1, args_end = 3,
                   funcname = Some ''id'', isverbose = False, ishelp = False\<rparr> identity) =
     [1, 2]"
    by (simp_all add: make_thargs_def Let_def up)
  have 2: "main (example_env all_created [1, 0]) ''int''
       [''-t'', ''2'', ''-n'', ''2'', ''-F'', ''id'', ''1'', ''3''] =
     Some (Exited \<lparr>retcode = 0, stdout = [1], stderr = [],
                   dlopened = [''./dlfunc_id.so''], created = [0, 1], cancelled = [],
                   func_calls = 2\<rparr>)"
    by (simp add: main_def example_simps FUNC_PREFIX_def no_outcome_def integrate_def
        make_thargs_def Let_def up rep integrate_worker_def integrate_loop.simps sum_results_def
        finish_def)
  from 1 2 show ?thesis by simp
qed








subsection \<open>A thread that cannot be created\<close>

lemma cancel_loop_repeats: "cancel_loop i k = replicate (Suc k) i"
  by (induction k) simp_all

text \<open>
  C2, with three threads of which the third cannot be created: the program reports the
  threading error, exits with \<open>EX_OSERR\<close> and prints no result, but each of its three
  calls of \<open>pthread_cancel\<close> is for element 2 of \<open>threads\<close>, the thread that was not
  created, and none for the threads 0 and 1, which run.
\<close>

theorem cancel_repeats_failed_thread:
  "main (example_env third_fails [0, 1, 2]) ''int'' [''-t'', ''3'', ''-F'', ''id'', ''1'', ''3''] =
     Some (Exited \<lparr>retcode = EX_OSERR, stdout = [],
                   stderr = [Error_line ''Error: Threading error.''],
                   dlopened = [''./dlfunc_id.so''], created = [0, 1], cancelled = [2, 2, 2],
                   func_calls = 0\<rparr>)"
proof -
  have up: "[0..<3] = [0, Suc 0, 2]" by (simp add: upt_rec)
  have c: "cancel_loop 2 2 = [2, 2, 2]" by (simp add: numeral_2_eq_2)
  show ?thesis
    by (simp add: main_def example_simps FUNC_PREFIX_def no_outcome_def integrate_def
        Let_def up c finish_def report_def exit_codes)
qed

end
